theory Spec2Isabelle
  imports Complex_Main "HOL-Library.Signed_Division"
begin

section \<open>Numbers\<close>

text \<open>
  JavaScript numbers are modelled as mathematical reals (rounding of doubles, NaN and the
  infinities are outside the model, except where a definition says otherwise).
  \<open>js_rem\<close> is the \<open>%\<close> operator on numbers: the remainder of the truncating division,
  which takes the sign of the dividend. It is only used with a non-zero divisor.
\<close>

definition js_trunc :: "real \<Rightarrow> int" where
  "js_trunc v = (if 0 \<le> v then \<lfloor>v\<rfloor> else \<lceil>v\<rceil>)"

definition js_rem :: "real \<Rightarrow> real \<Rightarrow> real" where
  "js_rem a b = a - b * of_int (js_trunc (a / b))"

section \<open>Sprites: Arrows and Bug (Arrows.js, Bug.js)\<close>

text \<open>
  The fields an entity passes to kontra's \<open>Sprite\<close>. The fields \<open>x\<close>, \<open>y\<close> and
  \<open>anchor.x\<close>, \<open>anchor.y\<close> of the source are \<open>x_pos\<close>, \<open>y_pos\<close>, \<open>anchor_x\<close>,
  \<open>anchor_y\<close> here. The rendering state of kontra (context, animations) is not modelled.
\<close>

record sprite =
  x_pos :: real
  y_pos :: real
  width :: real
  height :: real
  anchor_x :: real
  anchor_y :: real
  rotationDeg :: real
  rotationSpeed :: real
  idleDeg :: real
  direction :: real
  rotation :: real

record arrow = sprite +
  idleDirection :: real

record bug = sprite +
  groundedAnchorY :: real
  currentState :: string
  isFlying :: nat
  gravity :: real
  jumpSpeed :: real
  wereOverArrow :: bool

text \<open>What \<open>new Date()\<close> gives: \<open>getMinutes()\<close> and \<open>getHours()\<close>.\<close>

record date =
  getMinutes :: nat
  getHours :: nat

section \<open>Clock and ScoreBar (Clock.js, ScoreBar.js)\<close>

text \<open>
  The fields \<open>x\<close>, \<open>y\<close> of the clock are \<open>clock_x\<close>, \<open>clock_y\<close>, and the fields
  \<open>x\<close>, \<open>y\<close>, \<open>size\<close> of the score bar are \<open>bar_x\<close>, \<open>bar_y\<close>, \<open>bar_size\<close>.
\<close>

record clock =
  clock_x :: real
  clock_y :: real
  offset :: "real \<times> real"
  radius :: real
  numbersRadius :: real
  minRadius :: real
  maxRadius :: real
  scaleUp :: bool
  scaleSpeed :: real
  scaleAcceleration :: real
  hideNumbers :: bool
  numbersHidingSpeed :: real
  numbersOpacity :: real
  offsetSpeed :: "(real \<times> real) option"
  offsetAcceleration :: "(real \<times> real) option"

record scoreBar =
  bar_x :: real
  bar_y :: real
  bar_size :: real
  score :: int
  hiScore :: int
  primaryTxt :: string
  secondaryTxt :: string

section \<open>The angle of a rotating entity\<close>



section \<open>Colour schemes (ColorSchemes.js)\<close>

text \<open>The role \<open>clock\<close> of a scheme is the field \<open>clockColor\<close>.\<close>

record colorScheme =
  background :: string
  scorebar :: string
  arrows :: string
  clockColor :: string
  numbers :: string

text \<open>The constructor's defaults: \<open>background=b, scorebar=w, arrows=b, clock=b, numbers=b\<close>.\<close>

definition ColorScheme1 :: "string \<Rightarrow> colorScheme" where
  "ColorScheme1 bg = \<lparr>background = bg, scorebar = ''#ffffff'', arrows = ''#000000'',
     clockColor = ''#000000'', numbers = ''#000000''\<rparr>"

definition ColorScheme2 :: "string \<Rightarrow> string \<Rightarrow> colorScheme" where
  "ColorScheme2 bg sb = \<lparr>background = bg, scorebar = sb, arrows = ''#000000'',
     clockColor = ''#000000'', numbers = ''#000000''\<rparr>"

definition blue :: colorScheme where "blue = ColorScheme1 ''#0260E8''"
definition green :: colorScheme where "green = ColorScheme1 ''#41B619''"
definition yellow :: colorScheme where "yellow = ColorScheme1 ''#FFD600''"
definition red :: colorScheme where "red = ColorScheme1 ''#F6522E''"
definition violet :: colorScheme where "violet = ColorScheme1 ''#6E36CA''"
definition complete_darkness :: colorScheme where
  "complete_darkness = ColorScheme2 ''#000000'' ''#000000''"

definition pool :: "colorScheme list" where
  "pool = [complete_darkness, blue, green, yellow, violet, red]"

definition ColorSchemes_length :: int where
  "ColorSchemes_length = int (length pool)"

text \<open>
  \<open>ColorSchemes.get\<close>: a copy of \<open>pool[index]\<close>. Outside the pool the source copies
  \<open>undefined\<close> into an empty object; that is \<open>None\<close> here.
\<close>

definition ColorSchemes_get :: "int \<Rightarrow> colorScheme option" where
  "ColorSchemes_get index =
     (if 0 \<le> index \<and> index < int (length pool) then Some (pool ! nat index) else None)"

subsection \<open>Hexadecimal channels\<close>

text \<open>
  \<open>parseInt(s, 16)\<close> on a slice of a colour: the value of the longest prefix of
  hexadecimal digits, \<open>None\<close> (NaN) when there is none. Signs, white space and a
  \<open>0x\<close> prefix, which \<open>parseInt\<close> also accepts, are not modelled.
\<close>

definition hexDigits :: "(char \<times> nat) list" where
  "hexDigits = zip ''0123456789abcdefABCDEF''
     [0, 1, 2, 3, 4, 5, 6, 7, 8, 9, 10, 11, 12, 13, 14, 15, 10, 11, 12, 13, 14, 15]"

definition hexDigit :: "char \<Rightarrow> nat option" where
  "hexDigit c = map_of hexDigits c"

fun parseDigits :: "nat \<Rightarrow> string \<Rightarrow> nat" where
  "parseDigits acc [] = acc"
| "parseDigits acc (c # cs) =
     (case hexDigit c of None \<Rightarrow> acc | Some d \<Rightarrow> parseDigits (16 * acc + d) cs)"

definition parseInt16 :: "string \<Rightarrow> int option" where
  "parseInt16 s =
     (case s of [] \<Rightarrow> None
      | c # cs \<Rightarrow> (case hexDigit c of None \<Rightarrow> None | Some d \<Rightarrow> Some (int (parseDigits 0 s))))"

text \<open>\<open>s.slice(a, b)\<close> for \<open>0 \<le> a \<le> b\<close>.\<close>

definition slice :: "string \<Rightarrow> nat \<Rightarrow> nat \<Rightarrow> string" where
  "slice s a b = take (b - a) (drop a s)"

text \<open>\<open>n.toString(16)\<close> on an integer: lower-case digits, a minus sign when negative.\<close>

definition digitChar :: "nat \<Rightarrow> char" where
  "digitChar d = ''0123456789abcdef'' ! d"

fun natToString16 :: "nat \<Rightarrow> string" where
  "natToString16 n =
     (if n < 16 then [digitChar n] else natToString16 (n div 16) @ [digitChar (n mod 16)])"

declare natToString16.simps [simp del]

definition toString16 :: "int \<Rightarrow> string" where
  "toString16 n = (if n < 0 then CHR ''-'' # natToString16 (nat (- n)) else natToString16 (nat n))"

subsection \<open>The generator \<open>transitionColor\<close>\<close>

text \<open>
  The state of the generator between two calls of \<open>next()\<close>: the arrays \<open>f\<close>, \<open>t\<close>
  and \<open>done\<close>, of length three, as triples. Every call of \<open>next()\<close> resumes at the test
  of the \<open>while\<close> loop.
\<close>

type_synonym rgb = "int \<times> int \<times> int"

record colorGen =
  gen_f :: rgb
  gen_t :: rgb
  gen_done :: "bool \<times> bool \<times> bool"

text \<open>One round of the \<open>for\<close> loop, for channel \<open>i\<close>: the new \<open>f[i]\<close> and \<open>done[i]\<close>.\<close>

definition stepChannel :: "int \<Rightarrow> int \<Rightarrow> bool \<Rightarrow> int \<times> bool" where
  "stepChannel t f d =
     (let dir = sgn (t - f);
          f1 = f + 2 * dir;
          f2 = (if dir = - 1 then (if f1 < t then t else f1) else f1);
          f3 = (if dir = 1 then (if f2 > t then t else f2) else f2);
          d1 = (if dir = 0 then True else d)
      in (f3, d1))"

definition pad2 :: "string \<Rightarrow> string" where
  "pad2 r = (if length r = 1 then CHR ''0'' # r else r)"

definition hexColor :: "rgb \<Rightarrow> string" where
  "hexColor c = (case c of (r, g, b) \<Rightarrow>
     CHR ''#'' # pad2 (toString16 r) @ pad2 (toString16 g) @ pad2 (toString16 b))"

definition parseColor :: "string \<Rightarrow> rgb option" where
  "parseColor s =
     (case (parseInt16 (slice s 1 3), parseInt16 (slice s 3 5), parseInt16 (slice s 5 7)) of
        (Some r, Some g, Some b) \<Rightarrow> Some (r, g, b)
      | _ \<Rightarrow> None)"

text \<open>
  \<open>transitionColor(from, to)\<close>: the generator before its first \<open>next()\<close>. \<open>None\<close> when a
  channel of \<open>from\<close> or \<open>to\<close> is not a number; the source then computes with NaN.
\<close>

definition transitionColor :: "string \<Rightarrow> string \<Rightarrow> colorGen option" where
  "transitionColor from to =
     (case (parseColor from, parseColor to) of
        (Some f, Some t) \<Rightarrow> Some \<lparr>gen_f = f, gen_t = t, gen_done = (False, False, False)\<rparr>
      | _ \<Rightarrow> None)"

definition allDone :: "colorGen \<Rightarrow> bool" where
  "allDone g = (case gen_done g of (d0, d1, d2) \<Rightarrow> d0 \<and> d1 \<and> d2)"

definition loopBody :: "colorGen \<Rightarrow> colorGen" where
  "loopBody g =
     (case (gen_f g, gen_t g, gen_done g) of
        ((f0, f1, f2), (t0, t1, t2), (d0, d1, d2)) \<Rightarrow>
          (let (f0', d0') = stepChannel t0 f0 d0;
               (f1', d1') = stepChannel t1 f1 d1;
               (f2', d2') = stepChannel t2 f2 d2
           in g\<lparr>gen_f := (f0', f1', f2'), gen_done := (d0', d1', d2')\<rparr>))"

text \<open>
  \<open>next()\<close>: the value yielded (\<open>None\<close> when the generator reports done) and the
  generator afterwards.
\<close>

definition colorGen_next :: "colorGen \<Rightarrow> string option \<times> colorGen" where
  "colorGen_next g =
     (if allDone g then (None, g)
      else (let g1 = loopBody g in (Some (hexColor (gen_f g1)), g1)))"

subsection \<open>The generator \<open>transitionColorScheme\<close>\<close>

text \<open>
  The five generators of the roles and the scheme that the generator mutates and yields.
  The roles are visited in the order of \<open>Object.keys\<close>: background, scorebar, arrows,
  clock, numbers.
\<close>

record schemeGen =
  generator_background :: colorGen
  generator_scorebar :: colorGen
  generator_arrows :: colorGen
  generator_clock :: colorGen
  generator_numbers :: colorGen
  current :: colorScheme

text \<open>
  \<open>None\<close> when a colour of \<open>from\<close> or \<open>to\<close> has a channel that is not a number (see
  \<open>transitionColor\<close>).
\<close>

definition transitionColorScheme :: "colorScheme \<Rightarrow> colorScheme \<Rightarrow> schemeGen option" where
  "transitionColorScheme from to =
     (case (transitionColor (background from) (background to),
            transitionColor (scorebar from) (scorebar to),
            transitionColor (arrows from) (arrows to),
            transitionColor (clockColor from) (clockColor to),
            transitionColor (numbers from) (numbers to)) of
        (Some g1, Some g2, Some g3, Some g4, Some g5) \<Rightarrow>
          Some \<lparr>generator_background = g1, generator_scorebar = g2, generator_arrows = g3,
                generator_clock = g4, generator_numbers = g5, current = from\<rparr>
      | _ \<Rightarrow> None)"

text \<open>
  \<open>obj.value || colorScheme[a]\<close>: a yielded colour is never the empty string, so the
  value is falsy exactly when the role's generator is done.
\<close>

definition schemeGen_next :: "schemeGen \<Rightarrow> colorScheme option \<times> schemeGen" where
  "schemeGen_next sg =
     (let (v1, g1) = colorGen_next (generator_background sg);
          (v2, g2) = colorGen_next (generator_scorebar sg);
          (v3, g3) = colorGen_next (generator_arrows sg);
          (v4, g4) = colorGen_next (generator_clock sg);
          (v5, g5) = colorGen_next (generator_numbers sg);
          c = current sg;
          c1 = \<lparr>background = (case v1 of Some v \<Rightarrow> v | None \<Rightarrow> background c),
                scorebar = (case v2 of Some v \<Rightarrow> v | None \<Rightarrow> scorebar c),
                arrows = (case v3 of Some v \<Rightarrow> v | None \<Rightarrow> arrows c),
                clockColor = (case v4 of Some v \<Rightarrow> v | None \<Rightarrow> clockColor c),
                numbers = (case v5 of Some v \<Rightarrow> v | None \<Rightarrow> numbers c)\<rparr>;
          done = (v1 = None \<and> v2 = None \<and> v3 = None \<and> v4 = None \<and> v5 = None);
          sg1 = \<lparr>generator_background = g1, generator_scorebar = g2, generator_arrows = g3,
                 generator_clock = g4, generator_numbers = g5, current = c1\<rparr>
      in if done then (None, sg1) else (Some c1, sg1))"

text \<open>
  \<open>ColorSchemes.transition\<close>. \<open>None\<close> when an index is outside the pool: the source then
  builds a generator over an empty object, which throws at its first \<open>next()\<close>.
\<close>

definition ColorSchemes_transition :: "int \<Rightarrow> int \<Rightarrow> schemeGen option" where
  "ColorSchemes_transition index1 index2 =
     (case (ColorSchemes_get index1, ColorSchemes_get index2) of
        (Some scheme1, Some scheme2) \<Rightarrow> transitionColorScheme scheme1 scheme2
      | _ \<Rightarrow> None)"

section \<open>The game (Game.js)\<close>

text \<open>
  The constructor of \<open>Game\<close> fills \<open>this\<close> field by field and hands it to the entity
  factories on the way; each record below is \<open>this\<close> at one of these moments, and the
  last is the finished game. The field \<open>transitionColorScheme\<close> of the source is
  \<open>transitionColorScheme_field\<close>; its value \<open>None\<close> is the source's \<open>null\<close>.
\<close>

record game0 =
  gameOver :: bool
  colorSchemeIdx :: int
  colorScheme :: colorScheme
  transitionColorScheme_field :: "schemeGen option"

record game1 = game0 +
  clock :: clock

record game2 = game1 +
  scoreBar :: scoreBar

record game3 = game2 +
  arrow1 :: arrow
  arrow2 :: arrow

record game = game3 +
  bug :: bug

text \<open>
  A reference to one of the two arrows of the game, as \<open>isOverArrow\<close> collects them and
  as \<open>bug_overarrow\<close> carries them.
\<close>

datatype arrowRef = Arrow1 | Arrow2


subsection \<open>The handlers of \<open>scorebar_add\<close> and \<open>bug_overarrow\<close>\<close>

text \<open>
  The \<open>do ... while(this.colorSchemeIdx==0)\<close> loop of the first handler. \<open>smod\<close> is the
  remainder of the truncating division on integers, as \<open>%\<close> is. After a round that
  lands on 0 the next round lands on 1, so the loop ends.
\<close>

function nextColorSchemeIdx :: "int \<Rightarrow> int" where
  "nextColorSchemeIdx i =
     (let j = (i + 1) smod ColorSchemes_length in
      if j = 0 then nextColorSchemeIdx j else j)"
  by pat_completeness auto
termination
  by (relation "measure (\<lambda>i. if (i + 1) smod ColorSchemes_length = 0 then 1 else 0)")
     (auto simp: ColorSchemes_length_def pool_def signed_modulo_int_def)

declare nextColorSchemeIdx.simps [simp del]

definition on_scorebar_add_color :: "'a game0_scheme \<Rightarrow> int \<Rightarrow> 'a game0_scheme" where
  "on_scorebar_add_color game sc =
     (if sc smod 5 = 0
      then (let previous = colorSchemeIdx game;
                idx = nextColorSchemeIdx previous
            in game\<lparr>colorSchemeIdx := idx,
                    transitionColorScheme_field := ColorSchemes_transition previous idx\<rparr>)
      else game)"

definition on_scorebar_add_speed :: "'a game3_scheme \<Rightarrow> int \<Rightarrow> 'a game3_scheme" where
  "on_scorebar_add_speed game sc =
     (if sc smod 10 = 0
      then game\<lparr>arrow1 := (arrow1 game)\<lparr>rotationSpeed := rotationSpeed (arrow1 game) + 0.1\<rparr>,
                arrow2 := (arrow2 game)\<lparr>rotationSpeed := rotationSpeed (arrow2 game) + 0.1\<rparr>\<rparr>
      else game)"

text \<open>\<open>emit("scorebar_add", score)\<close>: the two handlers, in the order of their registration.\<close>

definition emit_scorebar_add :: "'a game3_scheme \<Rightarrow> int \<Rightarrow> 'a game3_scheme" where
  "emit_scorebar_add game sc = on_scorebar_add_speed (on_scorebar_add_color game sc) sc"

text \<open>\<open>scoreBar.add(earned)\<close>; the high score's storage is not modelled.\<close>

definition scoreBar_add :: "int \<Rightarrow> 'a game3_scheme \<Rightarrow> 'a game3_scheme" where
  "scoreBar_add earned game =
     (let sb = scoreBar game;
          sb1 = sb\<lparr>score := score sb + earned\<rparr>;
          sb2 = (if score sb1 > hiScore sb1 then sb1\<lparr>hiScore := score sb1\<rparr> else sb1)
      in emit_scorebar_add (game\<lparr>scoreBar := sb2\<rparr>) (score sb2))"

section \<open>Arrows (Arrows.js)\<close>

text \<open>\<open>rnd\<close> is the value of \<open>Math.random()\<close>.\<close>

definition randomDirectionChange :: "real \<Rightarrow> arrow \<Rightarrow> arrow" where
  "randomDirectionChange rnd a =
     (let a1 = (if rnd > 0.5 then direction a else - 1 * direction a) in a\<lparr>direction := a1\<rparr>)"

definition arrow1_updateIdleDeg :: "date \<Rightarrow> arrow \<Rightarrow> arrow" where
  "arrow1_updateIdleDeg d a =
     (let mins = real (getMinutes d);
          minsAngle = 360 / 60 * mins
      in a\<lparr>idleDeg := minsAngle\<rparr>)"

definition arrow2_updateIdleDeg :: "date \<Rightarrow> arrow \<Rightarrow> arrow" where
  "arrow2_updateIdleDeg d a =
     (let mins = real (getMinutes d);
          hours = real (getHours d mod 12);
          hoursAngle = 360 / 12 * hours + 360 / 60 / 12 * mins
      in a\<lparr>idleDeg := hoursAngle\<rparr>)"




text \<open>
  The handler of \<open>bug_overarrow\<close>: one point, and a random change of direction for the
  arrow of the event.
\<close>

definition on_bug_overarrow :: "real \<Rightarrow> 'a game3_scheme \<Rightarrow> arrowRef \<Rightarrow> 'a game3_scheme" where
  "on_bug_overarrow rnd game a =
     (let g1 = scoreBar_add 1 game
      in case a of
           Arrow1 \<Rightarrow> g1\<lparr>arrow1 := randomDirectionChange rnd (arrow1 g1)\<rparr>
         | Arrow2 \<Rightarrow> g1\<lparr>arrow2 := randomDirectionChange rnd (arrow2 g1)\<rparr>)"

section \<open>Bug (Bug.js)\<close>


text \<open>\<open>updateIdleDeg\<close>; the constants \<open>arrow1\<close>, \<open>arrow2\<close> of the source are \<open>a1\<close>, \<open>a2\<close>.\<close>

definition bug_updateIdleDeg :: "'a game3_scheme \<Rightarrow> bug \<Rightarrow> bug" where
  "bug_updateIdleDeg game b =
     (let a1 = idleDeg (arrow1 game);
          a2 = idleDeg (arrow2 game);
          p1 = min a1 a2 + \<bar>a1 - a2\<bar> / 2;
          p2 = p1 + 180;
          p1 = js_rem p1 360;
          p2 = js_rem p2 360
      in if \<bar>p1 - idleDeg (arrow1 game)\<bar> > \<bar>p2 - idleDeg (arrow1 game)\<bar>
         then b\<lparr>idleDeg := p1\<rparr>
         else b\<lparr>idleDeg := p2\<rparr>)"







definition switchDirection :: "bug \<Rightarrow> bug" where
  "switchDirection b = b\<lparr>direction := direction b * (- 1)\<rparr>"

section \<open>The entity factories\<close>

text \<open>
  A factory's argument \<open>game\<close> is \<open>None\<close> when the argument is absent or falsy, and the
  \<open>throw\<close> of a factory is the result \<open>Inl\<close>. Fields that the source initialises with
  \<open>null\<close> are written 0 here; the factory assigns them before it returns. Every factory
  but \<open>Clock\<close> subscribes two handlers, \<open>defSize\<close> to \<open>clock_resize\<close> and
  \<open>defPosition\<close> to \<open>clock_reposition\<close>, and calls both itself.
\<close>

datatype error = Error string

definition scoreBar_defSize :: "real \<Rightarrow> scoreBar \<Rightarrow> scoreBar" where
  "scoreBar_defSize r sb = sb\<lparr>bar_size := r / 2\<rparr>"

definition scoreBar_defPosition :: "real \<Rightarrow> real \<Rightarrow> scoreBar \<Rightarrow> scoreBar" where
  "scoreBar_defPosition x y sb = sb\<lparr>bar_x := x, bar_y := y\<rparr>"

definition arrows_defSize :: "real \<Rightarrow> arrow \<times> arrow \<Rightarrow> arrow \<times> arrow" where
  "arrows_defSize r as = (case as of (a1, a2) \<Rightarrow>
     (a1\<lparr>width := r / 4, height := r * 1.4\<rparr>, a2\<lparr>width := r / 4, height := r * 1.3\<rparr>))"

definition arrows_defPosition :: "real \<Rightarrow> real \<Rightarrow> arrow \<times> arrow \<Rightarrow> arrow \<times> arrow" where
  "arrows_defPosition x y as = (case as of (a1, a2) \<Rightarrow>
     (a1\<lparr>x_pos := x, y_pos := y\<rparr>, a2\<lparr>x_pos := x, y_pos := y\<rparr>))"

definition bug_defSize :: "real \<Rightarrow> bug \<Rightarrow> bug" where
  "bug_defSize r b =
     (let sz = 1.4 * r / 4;
          g = (sz + r) / sz;
          b1 = b\<lparr>width := sz, height := sz, groundedAnchorY := g\<rparr>
      in if isFlying b1 = 0 then b1\<lparr>anchor_y := g\<rparr> else b1)"

definition bug_defPosition :: "real \<Rightarrow> real \<Rightarrow> bug \<Rightarrow> bug" where
  "bug_defPosition x y b = b\<lparr>x_pos := x, y_pos := y\<rparr>"

text \<open>
  \<open>resize\<close> and \<open>reposition\<close> of the clock, without the events that they emit (see
  \<open>onresize\<close> for these).
\<close>

definition resize :: "real \<Rightarrow> clock \<Rightarrow> clock" where
  "resize r c =
     (let c1 = c\<lparr>radius := r, minRadius := r, maxRadius := r * 1.5\<rparr>;
          c2 = c1\<lparr>scaleSpeed := (maxRadius c1 - minRadius c1) / 30\<rparr>
      in c2\<lparr>numbersRadius := 2 * r\<rparr>)"

definition reposition :: "real \<Rightarrow> real \<Rightarrow> clock \<Rightarrow> clock" where
  "reposition x y c =
     c\<lparr>clock_x := (if x \<noteq> 0 then x else 0), clock_y := (if y \<noteq> 0 then y else 0)\<rparr>"

text \<open>
  \<open>Clock(game, x, y, radius = 100)\<close>: \<open>radius_arg = None\<close> when the fourth argument is
  absent. The body of the factory never reads \<open>game\<close>; only \<open>draw\<close> does.
\<close>

definition Clock :: "'a game0_scheme option \<Rightarrow> real \<Rightarrow> real \<Rightarrow> real option \<Rightarrow> error + clock" where
  "Clock game x y radius_arg =
     (let r = (case radius_arg of None \<Rightarrow> 100 | Some v \<Rightarrow> v);
          c = \<lparr>clock_x = 0, clock_y = 0, offset = (0, 0), radius = 0, numbersRadius = 0,
               minRadius = 0, maxRadius = 0, scaleUp = False, scaleSpeed = 0,
               scaleAcceleration = 0.08, hideNumbers = False, numbersHidingSpeed = 1 / 25,
               numbersOpacity = 1, offsetSpeed = None, offsetAcceleration = None\<rparr>
      in Inr (reposition x y (resize r c)))"

text \<open>\<open>stored\<close> is what \<open>getStoreItem("hiScore")\<close> returns.\<close>

definition ScoreBar :: "int option \<Rightarrow> 'a game1_scheme option \<Rightarrow> error + scoreBar" where
  "ScoreBar stored g =
     (case g of
        None \<Rightarrow> Inl (Error ''game is not defined'')
      | Some game \<Rightarrow>
          (let sb = \<lparr>bar_x = 0, bar_y = 0, bar_size = 0, score = 0, hiScore = 0,
                     primaryTxt = [], secondaryTxt = []\<rparr>;
               sb1 = scoreBar_defSize (radius (clock game)) sb;
               sb2 = scoreBar_defPosition (clock_x (clock game)) (clock_y (clock game)) sb1
           in Inr (sb2\<lparr>hiScore :=
                (case stored of None \<Rightarrow> 0 | Some v \<Rightarrow> if v \<noteq> 0 then v else 0)\<rparr>)))"

definition Arrows :: "date \<Rightarrow> 'a game1_scheme option \<Rightarrow> error + arrow \<times> arrow" where
  "Arrows d g =
     (case g of
        None \<Rightarrow> Inl (Error ''game is not defined'')
      | Some game \<Rightarrow>
          (let a1 = \<lparr>x_pos = 0, y_pos = 0, width = 0, height = 0, anchor_x = 0.5, anchor_y = 1,
                     rotationDeg = 0, rotationSpeed = 1, idleDeg = 0, direction = 1, rotation = 0,
                     idleDirection = 1\<rparr>;
               a2 = \<lparr>x_pos = 0, y_pos = 0, width = 0, height = 0, anchor_x = 0.5, anchor_y = 1,
                     rotationDeg = 0, rotationSpeed = 1.8, idleDeg = 0, direction = - 1,
                     rotation = 0, idleDirection = - 1\<rparr>;
               (a1, a2) = arrows_defSize (radius (clock game)) (a1, a2);
               (a1, a2) = arrows_defPosition (clock_x (clock game)) (clock_y (clock game)) (a1, a2);
               a1 = arrow1_updateIdleDeg d a1;
               a2 = arrow2_updateIdleDeg d a2;
               a1 = a1\<lparr>rotationDeg := idleDeg a1\<rparr>;
               a2 = a2\<lparr>rotationDeg := idleDeg a2\<rparr>
           in Inr (a1, a2)))"

definition Bug :: "'a game3_scheme option \<Rightarrow> error + bug" where
  "Bug g =
     (case g of
        None \<Rightarrow> Inl (Error ''game is not defined'')
      | Some game \<Rightarrow>
          (let b = \<lparr>x_pos = 0, y_pos = 0, width = 0, height = 0, anchor_x = 0.5, anchor_y = 0,
                    rotationDeg = 0, rotationSpeed = 1, idleDeg = 0, direction = 1, rotation = 0,
                    groundedAnchorY = 0, currentState = ''idle'', isFlying = 0,
                    gravity = - 0.0045, jumpSpeed = 0, wereOverArrow = False\<rparr>;
               b1 = bug_defSize (radius (clock game)) b;
               b2 = bug_defPosition (clock_x (clock game)) (clock_y (clock game)) b1
           in Inr (bug_updateIdleDeg game b2)))"

subsection \<open>The constructor of \<open>Game\<close>\<close>

text \<open>
  \<open>onresize\<close>: \<open>w\<close>, \<open>h\<close> are the window's inner width and height. The clock's
  \<open>resize\<close> emits \<open>clock_resize\<close> and its \<open>reposition\<close> emits \<open>clock_reposition\<close>; the
  handlers run in the order in which the factories subscribed them.
\<close>

definition onresize :: "real \<Rightarrow> real \<Rightarrow> bool \<Rightarrow> game \<Rightarrow> game" where
  "onresize w h mobile this =
     (let r = (if mobile then w / 6 else h / 10);
          (a1, a2) = arrows_defSize r (arrow1 this, arrow2 this);
          (a1, a2) = arrows_defPosition (w / 2) (h / 2) (a1, a2)
      in this\<lparr>clock := reposition (w / 2) (h / 2) (resize r (clock this)),
              scoreBar := scoreBar_defPosition (w / 2) (h / 2) (scoreBar_defSize r (scoreBar this)),
              arrow1 := a1, arrow2 := a2,
              bug := bug_defPosition (w / 2) (h / 2) (bug_defSize r (bug this))\<rparr>)"

text \<open>
  \<open>new Game()\<close>, without the sprite sheet and the listeners of the document. The scheme
  \<open>ColorSchemes.get(0)\<close> is \<open>pool[0]\<close>.
\<close>

definition Game :: "date \<Rightarrow> int option \<Rightarrow> real \<Rightarrow> real \<Rightarrow> bool \<Rightarrow> error + game" where
  "Game d stored w h mobile =
     (let this0 = \<lparr>gameOver = True, colorSchemeIdx = 1, colorScheme = pool ! 0,
                   transitionColorScheme_field = ColorSchemes_transition 0 1\<rparr>
      in case Clock (Some this0) 270 270 None of
           Inl e \<Rightarrow> Inl e
         | Inr c \<Rightarrow>
        (let this1 = game0.extend this0 (game1.fields c)
         in case ScoreBar stored (Some this1) of
              Inl e \<Rightarrow> Inl e
            | Inr sb \<Rightarrow>
           (let this2 = game1.extend this1 (game2.fields sb)
            in case Arrows d (Some this2) of
                 Inl e \<Rightarrow> Inl e
               | Inr (a1, a2) \<Rightarrow>
              (let this3 = game2.extend this2 (game3.fields a1 a2)
               in case Bug (Some this3) of
                    Inl e \<Rightarrow> Inl e
                  | Inr b \<Rightarrow> Inr (onresize w h mobile (game3.extend this3 (game.fields b)))))))"



section \<open>Collision (Collision.js)\<close>
















section \<open>Notions of the specification\<close>

text \<open>
  The two candidate rest positions of the Bug in the words of the specification: the
  midpoint of the two Arrows' idle angles and its opposite, both modulo 360.
\<close>

definition candidates :: "real \<Rightarrow> real \<Rightarrow> real \<times> real" where
  "candidates a1 a2 = (js_rem ((a1 + a2) / 2) 360, js_rem ((a1 + a2) / 2 + 180) 360)"










text \<open>
  A channel moved by 2 toward its target, clamped on overshoot, and a colour moved so in
  its three channels; a sequence of colours in which every colour is the one before it
  (at first \<open>c\<close>) moved toward \<open>t\<close>.
\<close>

definition approach :: "int \<Rightarrow> int \<Rightarrow> int" where
  "approach t c = (if c < t then min (c + 2) t else if t < c then max (c - 2) t else c)"

definition approachColor :: "rgb \<Rightarrow> rgb \<Rightarrow> rgb" where
  "approachColor t c = (case (t, c) of ((t0, t1, t2), (c0, c1, c2)) \<Rightarrow>
     (approach t0 c0, approach t1 c1, approach t2 c2))"

fun stepsFrom :: "rgb \<Rightarrow> rgb \<Rightarrow> rgb list \<Rightarrow> bool" where
  "stepsFrom t c [] = True"
| "stepsFrom t c (x # xs) = (x = approachColor t c \<and> stepsFrom t x xs)"

text \<open>Every channel of \<open>c\<close> lies between the same channel of \<open>a\<close> and of \<open>b\<close>.\<close>

definition channelsBetween :: "rgb \<Rightarrow> rgb \<Rightarrow> rgb \<Rightarrow> bool" where
  "channelsBetween a b c = (case (a, b, c) of ((a0, a1, a2), (b0, b1, b2), (c0, c1, c2)) \<Rightarrow>
     min a0 b0 \<le> c0 \<and> c0 \<le> max a0 b0 \<and> min a1 b1 \<le> c1 \<and> c1 \<le> max a1 b1
     \<and> min a2 b2 \<le> c2 \<and> c2 \<le> max a2 b2)"

text \<open>The channels of a yielded colour, read back as \<open>transitionColor\<close> reads a colour.\<close>

definition channelsOf :: "string \<Rightarrow> rgb" where
  "channelsOf y = the (parseColor y)"

text \<open>
  A hex colour: \<open>#\<close> and six hexadecimal digits. \<open>lowerCase\<close> writes its digits in
  lower case.
\<close>

fun isHexColor :: "string \<Rightarrow> bool" where
  "isHexColor [h, x1, x2, x3, x4, x5, x6] =
     (h = CHR ''#'' \<and> list_all (\<lambda>x. hexDigit x \<noteq> None) [x1, x2, x3, x4, x5, x6])"
| "isHexColor c = False"

definition lowerChar :: "char \<Rightarrow> char" where
  "lowerChar x = (case map_of (zip ''ABCDEF'' ''abcdef'') x of Some l \<Rightarrow> l | None \<Rightarrow> x)"

definition lowerCase :: "string \<Rightarrow> string" where
  "lowerCase c = map lowerChar c"

section \<open>An example game\<close>

text \<open>The game as constructed at 3:00 in a desktop window of 1000 by 800.\<close>

definition game_at_3_00 :: game where
  "game_at_3_00 = projr (Game \<lparr>getMinutes = 0, getHours = 3\<rparr> None 1000 800 False)"


section \<open>Running \<open>transitionColor\<close> to its end\<close>

text \<open>
  Consuming the generator as \<open>for (const v of gen)\<close> does: the values that it yields,
  in order, until it reports done, and the generator afterwards. The loop ends because
  every round either moves a channel that has not arrived or sets a \<open>done\<close> flag that
  was not set.
\<close>

definition chanMeasure :: "int \<Rightarrow> int \<Rightarrow> bool \<Rightarrow> nat" where
  "chanMeasure t f d = nat \<bar>t - f\<bar> + (if d then 0 else 1)"

definition genMeasure :: "colorGen \<Rightarrow> nat" where
  "genMeasure g =
     (case (gen_f g, gen_t g, gen_done g) of
        ((f0, f1, f2), (t0, t1, t2), (d0, d1, d2)) \<Rightarrow>
          chanMeasure t0 f0 d0 + chanMeasure t1 f1 d1 + chanMeasure t2 f2 d2)"

lemma stepChannel_le:
  "chanMeasure t (fst (stepChannel t f d)) (snd (stepChannel t f d)) \<le> chanMeasure t f d"
  by (auto simp: stepChannel_def chanMeasure_def Let_def sgn_if)

lemma stepChannel_less:
  "\<not> d \<Longrightarrow> chanMeasure t (fst (stepChannel t f d)) (snd (stepChannel t f d)) < chanMeasure t f d"
  by (auto simp: stepChannel_def chanMeasure_def Let_def sgn_if)

lemma loopBody_measure: "\<not> allDone g \<Longrightarrow> genMeasure (loopBody g) < genMeasure g"
proof -
  assume nd: "\<not> allDone g"
  obtain f0 f1 f2 where f: "gen_f g = (f0, f1, f2)" by (cases "gen_f g") auto
  obtain t0 t1 t2 where t: "gen_t g = (t0, t1, t2)" by (cases "gen_t g") auto
  obtain d0 d1 d2 where d: "gen_done g = (d0, d1, d2)" by (cases "gen_done g") auto
  from nd d have "\<not> d0 \<or> \<not> d1 \<or> \<not> d2" by (simp add: allDone_def)
  moreover note stepChannel_le [of t0 f0 d0] stepChannel_le [of t1 f1 d1]
    stepChannel_le [of t2 f2 d2] stepChannel_less [of d0 t0 f0]
    stepChannel_less [of d1 t1 f1] stepChannel_less [of d2 t2 f2]
  ultimately show ?thesis
    by (auto simp: genMeasure_def loopBody_def f t d split_beta Let_def)
qed

function colorGen_run :: "colorGen \<Rightarrow> string list \<times> colorGen" where
  "colorGen_run g =
     (case colorGen_next g of
        (None, g1) \<Rightarrow> ([], g1)
      | (Some v, g1) \<Rightarrow> (let (vs, g2) = colorGen_run g1 in (v # vs, g2)))"
  by pat_completeness auto
termination
proof (relation "measure genMeasure")
  show "wf (measure genMeasure)" by simp
next
  fix g :: colorGen and x y v
  assume "(x, y) = colorGen_next g" "x = Some v"
  then show "(y, g) \<in> measure genMeasure"
    by (auto simp: colorGen_next_def Let_def loopBody_measure split: if_splits)
qed

declare colorGen_run.simps [simp del]

section \<open>Lemmas\<close>

subsection \<open>The example game\<close>

lemma game_at_3_00_fields:
  "arrow1 game_at_3_00 = \<lparr>x_pos = 500, y_pos = 400, width = 20, height = 112,
     anchor_x = 1 / 2, anchor_y = 1, rotationDeg = 0, rotationSpeed = 1, idleDeg = 0,
     direction = 1, rotation = 0, idleDirection = 1\<rparr>"
  "arrow2 game_at_3_00 = \<lparr>x_pos = 500, y_pos = 400, width = 20, height = 104,
     anchor_x = 1 / 2, anchor_y = 1, rotationDeg = 90, rotationSpeed = 9 / 5, idleDeg = 90,
     direction = - 1, rotation = 0, idleDirection = - 1\<rparr>"
  "bug game_at_3_00 = \<lparr>x_pos = 500, y_pos = 400, width = 28, height = 28,
     anchor_x = 1 / 2, anchor_y = 27 / 7, rotationDeg = 0, rotationSpeed = 1, idleDeg = 225,
     direction = 1, rotation = 0, groundedAnchorY = 27 / 7, currentState = ''idle'',
     isFlying = 0, gravity = - (9 / 2000), jumpSpeed = 0, wereOverArrow = False\<rparr>"
  "gameOver game_at_3_00 = True"
  "colorSchemeIdx game_at_3_00 = 1"
  by (simp_all add: game_at_3_00_def Game_def Clock_def ScoreBar_def Arrows_def Bug_def
      onresize_def resize_def reposition_def scoreBar_defSize_def scoreBar_defPosition_def
      arrows_defSize_def arrows_defPosition_def bug_defSize_def bug_defPosition_def
      arrow1_updateIdleDeg_def arrow2_updateIdleDeg_def bug_updateIdleDeg_def
      game0.defs game1.defs game2.defs game3.defs game.defs js_rem_def js_trunc_def Let_def)


subsection \<open>Normalisation of an angle\<close>







subsection \<open>One step of convergence\<close>






subsection \<open>The updates of the arrows and of the bug, field by field\<close>



















subsection \<open>The score handlers\<close>



lemma parse_pool:
  "parseColor ''#000000'' = Some (0, 0, 0)"
  "parseColor ''#ffffff'' = Some (255, 255, 255)"
  "parseColor ''#0260E8'' = Some (2, 96, 232)"
  "parseColor ''#41B619'' = Some (65, 182, 25)"
  "parseColor ''#FFD600'' = Some (255, 214, 0)"
  "parseColor ''#F6522E'' = Some (246, 82, 46)"
  "parseColor ''#6E36CA'' = Some (110, 54, 202)"
  by (simp_all add: parseColor_def parseInt16_def slice_def hexDigit_def hexDigits_def)








subsection \<open>Three frames of the example game\<close>





subsection \<open>Hex colours and the generator at its target\<close>

lemma hexDigits_props:
  "list_all (\<lambda>(x, d). d < 16 \<and> digitChar d = lowerChar x \<and> (d = 0 \<longrightarrow> x = CHR ''0''))
     hexDigits"
  by (simp add: hexDigits_def digitChar_def lowerChar_def)

lemma hexDigit_lower:
  assumes "hexDigit x = Some d"
  shows "d < 16 \<and> digitChar d = lowerChar x \<and> (d = 0 \<longrightarrow> x = CHR ''0'')"
proof -
  from assms have "(x, d) \<in> set hexDigits" unfolding hexDigit_def by (rule map_of_SomeD)
  with hexDigits_props show ?thesis unfolding list_all_iff by blast
qed

lemma parseInt16_pair:
  assumes "hexDigit x = Some dx" "hexDigit y = Some dy"
  shows "parseInt16 [x, y] = Some (int (16 * dx + dy))"
  using assms by (simp add: parseInt16_def)

lemma toString16_nat: "toString16 (int n) = natToString16 n"
  by (simp only: toString16_def of_nat_less_0_iff if_False nat_int)

lemma toString16_pair:
  assumes "hexDigit x = Some dx" "hexDigit y = Some dy"
  shows "pad2 (toString16 (int (16 * dx + dy))) = [lowerChar x, lowerChar y]"
proof (cases "dx = 0")
  case True
  with hexDigit_lower [OF assms(1)] have x: "x = CHR ''0''" by simp
  from hexDigit_lower [OF assms(2)] have dy: "dy < 16" "digitChar dy = lowerChar y" by simp_all
  have "natToString16 dy = [digitChar dy]"
    using dy(1) by (subst natToString16.simps) simp
  with True x dy show ?thesis
    by (simp add: toString16_nat pad2_def lowerChar_def)
next
  case False
  from hexDigit_lower [OF assms(1)] have dx: "dx < 16" "digitChar dx = lowerChar x" by simp_all
  from hexDigit_lower [OF assms(2)] have dy: "dy < 16" "digitChar dy = lowerChar y" by simp_all
  have a: "natToString16 dx = [digitChar dx]"
    using dx(1) by (subst natToString16.simps) simp
  from False have "\<not> 16 * dx + dy < 16" by simp
  moreover from dy have "(16 * dx + dy) div 16 = dx" "(16 * dx + dy) mod 16 = dy" by simp_all
  ultimately have "natToString16 (16 * dx + dy) = [digitChar dx, digitChar dy]"
    by (subst natToString16.simps) (simp add: a)
  with dx dy show ?thesis by (simp only: toString16_nat pad2_def) simp
qed

lemma isHexColor_shape:
  assumes "isHexColor c"
  obtains a b c1 d e f da db dc dd de df' where
    "c = [CHR ''#'', a, b, c1, d, e, f]"
    "hexDigit a = Some da" "hexDigit b = Some db" "hexDigit c1 = Some dc"
    "hexDigit d = Some dd" "hexDigit e = Some de" "hexDigit f = Some df'"
  using assms by (cases c rule: isHexColor.cases) auto

lemma hexColor_parseColor:
  assumes "isHexColor c"
  shows "\<exists>p. parseColor c = Some p \<and> hexColor p = lowerCase c"
proof -
  from assms obtain a b c1 d e f da db dc dd de df' where
    c: "c = [CHR ''#'', a, b, c1, d, e, f]"
    and h: "hexDigit a = Some da" "hexDigit b = Some db" "hexDigit c1 = Some dc"
    "hexDigit d = Some dd" "hexDigit e = Some de" "hexDigit f = Some df'"
    by (rule isHexColor_shape)
  have p: "parseColor c = Some (int (16 * da + db), int (16 * dc + dd), int (16 * de + df'))"
    using parseInt16_pair [OF h(1,2)] parseInt16_pair [OF h(3,4)] parseInt16_pair [OF h(5,6)]
    by (simp add: parseColor_def slice_def c)
  have "hexColor (int (16 * da + db), int (16 * dc + dd), int (16 * de + df')) = lowerCase c"
    using toString16_pair [OF h(1,2)] toString16_pair [OF h(3,4)] toString16_pair [OF h(5,6)]
    by (simp add: hexColor_def lowerCase_def c lowerChar_def)
  with p show ?thesis by blast
qed

lemma stepChannel_arrived: "stepChannel t t d = (t, True)"
  by (simp add: stepChannel_def)

lemma colorGen_run_arrived:
  "colorGen_run \<lparr>gen_f = p, gen_t = p, gen_done = (False, False, False)\<rparr>
     = ([hexColor p], \<lparr>gen_f = p, gen_t = p, gen_done = (True, True, True)\<rparr>)"
proof -
  obtain p0 p1 p2 where p: "p = (p0, p1, p2)" by (cases p) auto
  have 1: "colorGen_next \<lparr>gen_f = p, gen_t = p, gen_done = (False, False, False)\<rparr>
      = (Some (hexColor p), \<lparr>gen_f = p, gen_t = p, gen_done = (True, True, True)\<rparr>)"
    by (simp add: colorGen_next_def allDone_def loopBody_def stepChannel_arrived p)
  have 2: "colorGen_next \<lparr>gen_f = p, gen_t = p, gen_done = (True, True, True)\<rparr>
      = (None, \<lparr>gen_f = p, gen_t = p, gen_done = (True, True, True)\<rparr>)"
    by (simp add: colorGen_next_def allDone_def)
  have 3: "colorGen_run \<lparr>gen_f = p, gen_t = p, gen_done = (True, True, True)\<rparr>
      = ([], \<lparr>gen_f = p, gen_t = p, gen_done = (True, True, True)\<rparr>)"
    by (subst colorGen_run.simps) (simp add: 2)
  show ?thesis by (subst colorGen_run.simps) (simp add: 1 3)
qed

lemma lowerCase_id: "set c \<inter> set ''ABCDEF'' = {} \<Longrightarrow> lowerCase c = c"
  by (induction c) (auto simp: lowerCase_def lowerChar_def)

lemma hexColor_blue: "hexColor (2, 96, 232) = ''#0260e8''"
  by code_simp


subsection \<open>Projections and tested axes\<close>













section \<open>The claims\<close>

text \<open>
  C2, amended. \<open>updateIdleDeg\<close> of the Bug sets \<open>idleDeg\<close> to one of the two candidate
  rest positions (the midpoint of the two Arrows' idle angles and its opposite, both modulo
  360), and to the one that is farther from Arrow1's idle angle, not the closer one: its
  absolute difference from Arrow1's idle angle is the larger of the two.
\<close>

theorem bug_updateIdleDeg_farther:
  "idleDeg (bug_updateIdleDeg game b)
     \<in> {fst (candidates (idleDeg (arrow1 game)) (idleDeg (arrow2 game))),
        snd (candidates (idleDeg (arrow1 game)) (idleDeg (arrow2 game)))}
   \<and> \<bar>idleDeg (bug_updateIdleDeg game b) - idleDeg (arrow1 game)\<bar>
     = max \<bar>fst (candidates (idleDeg (arrow1 game)) (idleDeg (arrow2 game))) - idleDeg (arrow1 game)\<bar>
           \<bar>snd (candidates (idleDeg (arrow1 game)) (idleDeg (arrow2 game))) - idleDeg (arrow1 game)\<bar>"
proof -
  have m: "min u v + \<bar>u - v\<bar> / 2 = (u + v) / 2" for u v :: real
    by (auto simp: min_def abs_if field_simps)
  show ?thesis
    by (simp add: bug_updateIdleDeg_def candidates_def Let_def m max_def)
qed

text \<open>
  C2 as stated fails at 3:00: the idle angles of the Arrows are 0 and 90, the candidates
  are 45 and 225, and the Bug's \<open>idleDeg\<close> becomes 225 although 45 is closer to Arrow1's
  idle angle 0.
\<close>

theorem bug_updateIdleDeg_closer_counterexample:
  "idleDeg (arrow1 game_at_3_00) = 0
   \<and> candidates (idleDeg (arrow1 game_at_3_00)) (idleDeg (arrow2 game_at_3_00)) = (45, 225)
   \<and> idleDeg (bug_updateIdleDeg game_at_3_00 (bug game_at_3_00)) = 225"
  by (simp add: bug_updateIdleDeg_def candidates_def Let_def game_at_3_00_fields
      js_rem_def js_trunc_def)















text \<open>
  C9. \<open>Bug\<close>, \<open>Arrows\<close> and \<open>ScoreBar\<close> throw when the game is absent; \<open>Clock\<close> does not:
  \<open>Clock(undefined, 270, 270)\<close> returns a clock.
\<close>

theorem Clock_without_game:
  "Clock None 270 270 None =
     Inr \<lparr>clock_x = 270, clock_y = 270, offset = (0, 0), radius = 100, numbersRadius = 200,
          minRadius = 100, maxRadius = 150, scaleUp = False, scaleSpeed = 5 / 3,
          scaleAcceleration = 2 / 25, hideNumbers = False, numbersHidingSpeed = 1 / 25,
          numbersOpacity = 1, offsetSpeed = None, offsetAcceleration = None\<rparr>
   \<and> Bug None = Inl (Error ''game is not defined'')
   \<and> Arrows d None = Inl (Error ''game is not defined'')
   \<and> ScoreBar stored None = Inl (Error ''game is not defined'')"
  by (simp add: Clock_def resize_def reposition_def Bug_def Arrows_def ScoreBar_def Let_def)

text \<open>
  C7. \<open>transitionColor("#000000", "#0260e8")\<close> yields 117 hex colours and then reports
  done. Every yielded colour is the one before it (at first \<open>#000000\<close>) with each channel
  moved by 2 toward the channel of \<open>#0260e8\<close>, clamped on overshoot; its channels lie
  between those of the two endpoints; the last one is \<open>#0260e8\<close>.
\<close>

theorem transitionColor_black_to_blue:
  "transitionColor ''#000000'' ''#0260e8''
     = Some \<lparr>gen_f = (0, 0, 0), gen_t = (2, 96, 232), gen_done = (False, False, False)\<rparr>
   \<and> length (fst (colorGen_run
        \<lparr>gen_f = (0, 0, 0), gen_t = (2, 96, 232), gen_done = (False, False, False)\<rparr>)) = 117
   \<and> list_all isHexColor (fst (colorGen_run
        \<lparr>gen_f = (0, 0, 0), gen_t = (2, 96, 232), gen_done = (False, False, False)\<rparr>))
   \<and> stepsFrom (2, 96, 232) (0, 0, 0) (map channelsOf (fst (colorGen_run
        \<lparr>gen_f = (0, 0, 0), gen_t = (2, 96, 232), gen_done = (False, False, False)\<rparr>)))
   \<and> list_all (channelsBetween (0, 0, 0) (2, 96, 232)) (map channelsOf (fst (colorGen_run
        \<lparr>gen_f = (0, 0, 0), gen_t = (2, 96, 232), gen_done = (False, False, False)\<rparr>)))
   \<and> last (fst (colorGen_run
        \<lparr>gen_f = (0, 0, 0), gen_t = (2, 96, 232), gen_done = (False, False, False)\<rparr>))
       = ''#0260e8''
   \<and> fst (colorGen_next (snd (colorGen_run
        \<lparr>gen_f = (0, 0, 0), gen_t = (2, 96, 232), gen_done = (False, False, False)\<rparr>)))
       = None"
proof -
  let ?g = "\<lparr>gen_f = (0, 0, 0), gen_t = (2, 96, 232), gen_done = (False, False, False)\<rparr>"
  have 1: "transitionColor ''#000000'' ''#0260e8'' = Some ?g" by code_simp
  have 2: "length (fst (colorGen_run ?g)) = 117" by code_simp
  have 3: "list_all isHexColor (fst (colorGen_run ?g))" by code_simp
  have 4: "stepsFrom (2, 96, 232) (0, 0, 0) (map channelsOf (fst (colorGen_run ?g)))"
    by code_simp
  have 5: "list_all (channelsBetween (0, 0, 0) (2, 96, 232))
             (map channelsOf (fst (colorGen_run ?g)))"
    by code_simp
  have 6: "last (fst (colorGen_run ?g)) = ''#0260e8''" by code_simp
  have 7: "fst (colorGen_next (snd (colorGen_run ?g))) = None" by code_simp
  from 1 2 3 4 5 6 7 show ?thesis by (intro conjI)
qed

text \<open>
  C10, amended. For every hex colour \<open>c\<close> (a \<open>#\<close> and six hexadecimal digits),
  \<open>transitionColor(c, c)\<close> yields exactly one value before it reports done: \<open>c\<close> with its
  digits in lower case, which is \<open>c\<close> itself when \<open>c\<close> has no upper-case digit.
\<close>

theorem transitionColor_same:
  assumes "isHexColor c"
  shows "(\<exists>g. transitionColor c c = Some g
            \<and> fst (colorGen_run g) = [lowerCase c]
            \<and> fst (colorGen_next (snd (colorGen_run g))) = None)
       \<and> (set c \<inter> set ''ABCDEF'' = {} \<longrightarrow> lowerCase c = c)"
proof -
  from hexColor_parseColor [OF assms] obtain p where
    p: "parseColor c = Some p" "hexColor p = lowerCase c" by blast
  let ?g = "\<lparr>gen_f = p, gen_t = p, gen_done = (False, False, False)\<rparr>"
  have "transitionColor c c = Some ?g" by (simp add: transitionColor_def p)
  moreover have "fst (colorGen_run ?g) = [lowerCase c]"
    by (simp add: colorGen_run_arrived p)
  moreover have "fst (colorGen_next (snd (colorGen_run ?g))) = None"
    by (simp add: colorGen_run_arrived colorGen_next_def allDone_def)
  ultimately have "\<exists>g. transitionColor c c = Some g
           \<and> fst (colorGen_run g) = [lowerCase c]
           \<and> fst (colorGen_next (snd (colorGen_run g))) = None" by blast
  with lowerCase_id [of c] show ?thesis by blast
qed

theorem transitionColor_same_witness:
  "(\<exists>g. transitionColor ''#ffffff'' ''#ffffff'' = Some g
      \<and> fst (colorGen_run g) = [''#ffffff'']
      \<and> fst (colorGen_next (snd (colorGen_run g))) = None)
   \<and> (\<exists>g. transitionColor ''#0260E8'' ''#0260E8'' = Some g
      \<and> fst (colorGen_run g) = [''#0260e8'']
      \<and> fst (colorGen_next (snd (colorGen_run g))) = None)"
proof -
  have 1: "isHexColor ''#ffffff''" by (simp add: hexDigit_def hexDigits_def)
  have 2: "isHexColor ''#0260E8''" by (simp add: hexDigit_def hexDigits_def)
  have l: "lowerCase ''#ffffff'' = ''#ffffff''" "lowerCase ''#0260E8'' = ''#0260e8''"
    by (simp_all add: lowerCase_def lowerChar_def)
  from transitionColor_same [OF 1] transitionColor_same [OF 2] show ?thesis
    unfolding l by blast
qed

text \<open>
  C10 as stated fails for a colour with an upper-case digit, such as the blue of the pool:
  \<open>transitionColor("#0260E8", "#0260E8")\<close> yields \<open>#0260e8\<close>.
\<close>

theorem transitionColor_same_counterexample:
  "map_option (fst \<circ> colorGen_run) (transitionColor ''#0260E8'' ''#0260E8'') = Some [''#0260e8'']
   \<and> ''#0260e8'' \<noteq> ''#0260E8''"
  by (simp add: transitionColor_def parse_pool colorGen_run_arrived hexColor_blue)




end
